theory Spec2Isabelle
  imports Complex_Main "HOL-Library.Word"
begin

section \<open>Configuration constants of \<^verbatim>\<open>pie_chart.py\<close>\<close>

definition CSV_FILE :: string where
  "CSV_FILE = ''product_stock.csv''"

definition REQUIRED_COLUMNS :: "string set" where
  "REQUIRED_COLUMNS = {''Product'', ''Stock''}"

definition COLORS :: "string list" where
  "COLORS = [''#FF6B6B'', ''#4ECDC4'', ''#45B7D1'', ''#96CEB4'', ''#FFEAA7'',
             ''#DDA0DD'', ''#98D8C8'', ''#F7DC6F'', ''#BB8FCE'', ''#85C1E9'']"

definition EXPLODE_THRESHOLD :: int where
  "EXPLODE_THRESHOLD = 30"

definition DPI :: nat where
  "DPI = 300"

section \<open>Exceptions\<close>

text \<open>
  The exception classes the script can meet. \<open>KeyboardInterrupt\<close> and \<open>SystemExit\<close>
  derive from \<open>BaseException\<close> only, every \<open>Exc c msg\<close> is an instance of
  \<open>Exception\<close> whose \<open>str\<close> is \<open>msg\<close>. The message texts of exceptions raised
  inside pandas are the library's; the control flow of the script depends on the class only.
\<close>

datatype exc_class =
  EmptyDataError | ParserError | ValueError | OverflowError | IndexError | OSError | EOFError
  | RuntimeError

datatype exc = KeyboardInterrupt | SystemExit | Exc exc_class string

fun is_Exception :: "exc \<Rightarrow> bool" where
  "is_Exception (Exc c msg) = True"
| "is_Exception KeyboardInterrupt = False"
| "is_Exception SystemExit = False"

fun str_exc :: "exc \<Rightarrow> string" where
  "str_exc (Exc c msg) = msg"
| "str_exc KeyboardInterrupt = []"
| "str_exc SystemExit = []"

section \<open>Data model: CSV content, data frames, series\<close>

type_synonym int32 = "32 word"

text \<open>
  A cell of the \<open>Stock\<close> column as the tokenizer sees it: empty or an NA marker, the
  decimal literal of an integer (given by the int32 value the column holds for it), an
  integer literal beyond the range of uint64, or any other text. A cell of the \<open>Product\<close>
  column is its text.
\<close>

datatype stock_cell = StockNA | StockInt int32 | StockText string | StockOverflow

record csv_row =
  product_field :: string
  stock_field :: stock_cell

text \<open>The texts that \<open>read_csv\<close> reads as a missing value by default.\<close>

definition NA_VALUES :: "string set" where
  "NA_VALUES = {'''', ''#N/A'', ''#N/A N/A'', ''#NA'', ''-1.#IND'', ''-1.#QNAN'', ''-NaN'',
                ''-nan'', ''1.#IND'', ''1.#QNAN'', ''<NA>'', ''N/A'', ''NA'', ''NULL'', ''NaN'',
                ''None'', ''n/a'', ''nan'', ''null''}"

text \<open>
  What is stored under a path: nothing that parses (\<open>EmptyFile\<close>), text the tokenizer
  rejects (\<open>Malformed\<close>), a file that exists and cannot be opened (\<open>Unreadable\<close>), or a
  table with a header line and data rows. The fields of a row are read only when the header
  has both required columns.
\<close>

datatype csv_content =
  EmptyFile | Malformed string | Unreadable string | Table "string list" "csv_row list"

text \<open>
  A row of the data frame: its index label, the \<open>Product\<close> value (dtype \<open>string\<close>, \<open>None\<close>
  is \<open><NA>\<close>) and the \<open>Stock\<close> value (dtype \<open>int32\<close>, which has no NA).
\<close>

record df_row =
  label :: nat
  Product :: "string option"
  Stock :: int32

record dataframe =
  columns :: "string list"
  rows :: "df_row list"

text \<open>A series is a column with the index labels of the frame it was taken from.\<close>

type_synonym 'a series = "(nat \<times> 'a) list"

section \<open>\<^verbatim>\<open>pd.read_csv\<close> with \<^verbatim>\<open>usecols\<close> and \<^verbatim>\<open>dtype\<close>, and \<^verbatim>\<open>dropna\<close>\<close>

text \<open>Decimal digits of a number, and the position of a column in the header.\<close>

fun str_nat :: "nat \<Rightarrow> string" where
  "str_nat n =
     (if n < 10 then [''0123456789'' ! n]
      else str_nat (n div 10) @ [''0123456789'' ! (n mod 10)])"

declare str_nat.simps [simp del]

fun column_index :: "string \<Rightarrow> string list \<Rightarrow> nat" where
  "column_index c [] = 0"
| "column_index c (h # hs) = (if h = c then 0 else Suc (column_index c hs))"

text \<open>
  \<open>dtype={'Product': 'string'}\<close>: the text of the cell, \<open><NA>\<close> for an NA marker.
\<close>

definition read_product :: "string \<Rightarrow> string option" where
  "read_product t = (if t \<in> NA_VALUES then None else Some t)"

text \<open>
  \<open>dtype={'Stock': 'int32'}\<close>: the column is scanned from the top. The first cell that is
  not an integer literal makes pandas raise \<open>ValueError\<close>, the first literal beyond uint64
  makes it raise \<open>OverflowError\<close>. When every cell is a literal or NA and one is NA, it
  raises \<open>ValueError\<close>, naming the column by its position in the file: an integer column
  cannot hold NA.
\<close>

fun first_bad_literal :: "stock_cell list \<Rightarrow> exc option" where
  "first_bad_literal [] = None"
| "first_bad_literal (StockText t # cs) =
     Some (Exc ValueError
       (''invalid literal for int() with base 10: '' @ [CHR 0x27] @ t @ [CHR 0x27]))"
| "first_bad_literal (StockOverflow # cs) = Some (Exc OverflowError ''Overflow'')"
| "first_bad_literal (StockNA # cs) = first_bad_literal cs"
| "first_bad_literal (StockInt v # cs) = first_bad_literal cs"

definition stock_error :: "nat \<Rightarrow> stock_cell list \<Rightarrow> exc option" where
  "stock_error col cells =
     (case first_bad_literal cells of
        Some e \<Rightarrow> Some e
      | None \<Rightarrow>
          if StockNA \<in> set cells
          then Some (Exc ValueError (''Integer column has NA values in column '' @ str_nat col))
          else None)"

text \<open>
  The rows of the data frame, for a body whose Stock cells are all integer literals (a body
  with another cell does not reach this point). Rows get the labels of the default
  \<open>RangeIndex\<close>: 0, 1, 2, ...
\<close>

fun convert_rows :: "nat \<Rightarrow> csv_row list \<Rightarrow> df_row list" where
  "convert_rows n [] = []"
| "convert_rows n (r # rs) =
     (case stock_field r of
        StockInt v \<Rightarrow>
          \<lparr>label = n, Product = read_product (product_field r), Stock = v\<rparr>
            # convert_rows (Suc n) rs
      | _ \<Rightarrow> convert_rows (Suc n) rs)"

fun read_csv :: "csv_content \<Rightarrow> exc + dataframe" where
  "read_csv EmptyFile = Inl (Exc EmptyDataError ''No columns to parse from file'')"
| "read_csv (Malformed msg) = Inl (Exc ParserError msg)"
| "read_csv (Unreadable msg) = Inl (Exc OSError msg)"
| "read_csv (Table header body) =
     (if \<not> REQUIRED_COLUMNS \<subseteq> set header
      then Inl (Exc ValueError ''Usecols do not match columns'')
      else (case stock_error (column_index ''Stock'' header) (map stock_field body) of
              Some e \<Rightarrow> Inl e
            | None \<Rightarrow>
                Inr \<lparr>columns = filter (\<lambda>c. c \<in> REQUIRED_COLUMNS) header,
                     rows = convert_rows 0 body\<rparr>))"

text \<open>\<open>dropna\<close> removes the rows holding an NA and keeps the labels of the others.\<close>

definition dropna :: "dataframe \<Rightarrow> dataframe" where
  "dropna frame = frame\<lparr>rows := filter (\<lambda>r. Product r \<noteq> None) (rows frame)\<rparr>"

definition empty_frame :: "dataframe \<Rightarrow> bool" where
  "empty_frame frame \<longleftrightarrow> rows frame = []"

section \<open>The visualizer and its console\<close>

record StockVisualizer =
  csv_path :: string
  df :: "dataframe option"

text \<open>
  \<open>csv_path\<close> holds the text that \<open>Path(csv_file)\<close> prints. For \<open>CSV_FILE\<close>, as for
  every text without a \<open>.\<close> component and without a doubled or trailing slash, that is
  the text itself.
\<close>

definition init_visualizer :: "string \<Rightarrow> StockVisualizer" where
  "init_visualizer csv_file = \<lparr>csv_path = csv_file, df = None\<rparr>"

text \<open>
  The lines the script prints, with the values formatted into them. \<open>AverageStock t\<close> is the
  average printed with one decimal, \<open>t\<close> in tenths.
\<close>

datatype line =
    NotFound string
  | MissingColumns "string set"
  | NoValidData
  | ReadError string
  | Rule
  | Heading
  | TotalStock int
  | Products nat
  | AverageStock int
  | Highest "string option" int32
  | Lowest "string option" int32
  | ChartSaved string
  | SaveError string
  | RenderFailed
  | Cancelled
  | Unexpected string

text \<open>What the script does to the world, in order.\<close>

datatype event =
    ReadCsv string
  | Print line
  | ShowPlot
  | Input
  | Savefig string nat
  | CloseAll
  | DelDf

section \<open>\<^verbatim>\<open>load_data\<close>\<close>

text \<open>
  The file system maps a path to the content stored there, \<open>None\<close> when nothing exists at
  the path. The result is the returned boolean or the exception that leaves the method, the
  visualizer after the call and the events of the call.
\<close>

fun caught_by_load :: "exc \<Rightarrow> bool" where
  "caught_by_load (Exc EmptyDataError msg) = True"
| "caught_by_load (Exc ParserError msg) = True"
| "caught_by_load (Exc ValueError msg) = True"
| "caught_by_load e = False"

definition load_data ::
  "(string \<rightharpoonup> csv_content) \<Rightarrow> StockVisualizer \<Rightarrow> (exc + bool) \<times> StockVisualizer \<times> event list" where
  "load_data fs self =
     (case fs (csv_path self) of
        None \<Rightarrow> (Inr False, self, [Print (NotFound (csv_path self))])
      | Some content \<Rightarrow>
          (case read_csv content of
             Inl e \<Rightarrow>
               if caught_by_load e
               then (Inr False, self, [ReadCsv (csv_path self), Print (ReadError (str_exc e))])
               else (Inl e, self, [ReadCsv (csv_path self)])
           | Inr frame \<Rightarrow>
               if \<not> REQUIRED_COLUMNS \<subseteq> set (columns frame)
               then (Inr False, self\<lparr>df := Some frame\<rparr>,
                     [ReadCsv (csv_path self),
                      Print (MissingColumns (REQUIRED_COLUMNS - set (columns frame)))])
               else if empty_frame (dropna frame)
               then (Inr False, self\<lparr>df := Some (dropna frame)\<rparr>,
                     [ReadCsv (csv_path self), Print NoValidData])
               else (Inr True, self\<lparr>df := Some (dropna frame)\<rparr>, [ReadCsv (csv_path self)])))"

section \<open>Series operations used by the script\<close>

definition column_Product :: "dataframe \<Rightarrow> string option series" where
  "column_Product frame = map (\<lambda>r. (label r, Product r)) (rows frame)"

definition column_Stock :: "dataframe \<Rightarrow> int32 series" where
  "column_Stock frame = map (\<lambda>r. (label r, Stock r)) (rows frame)"

text \<open>
  \<open>Series.sum\<close> of an int32 column accumulates in int64; the sum of fewer than \<open>2^32\<close>
  int32 values is exact there, so it is the integer sum of the signed values.
\<close>

definition series_sum :: "int32 series \<Rightarrow> int" where
  "series_sum s = sum_list (map (\<lambda>(l, v). sint v) s)"

text \<open>
  \<open>Series.mean\<close> is a float64: the quotient of the sum and the count, rounded to a double
  by \<open>fl\<close>, the rounding of the machine's float64 arithmetic.
\<close>

definition series_mean :: "(real \<Rightarrow> real) \<Rightarrow> int32 series \<Rightarrow> real" where
  "series_mean fl s = fl (real_of_int (series_sum s) / real (length s))"

text \<open>
  The float64 nearest to a real, a real halfway between two going to the one with the even
  significand: 53 significant bits, exponents from \<open>-1022\<close> up. The range is not bounded
  above here; the mean of int32 values is far below the largest float64.
\<close>

definition round_half_even :: "real \<Rightarrow> int" where
  "round_half_even v =
     (let f = \<lfloor>v\<rfloor>; r = v - of_int f
      in if r < 1 / 2 then f
         else if 1 / 2 < r then f + 1
         else if even f then f else f + 1)"

definition round_float64 :: "real \<Rightarrow> real" where
  "round_float64 v =
     (if v = 0 then 0
      else (let e = max \<lfloor>log 2 \<bar>v\<bar>\<rfloor> (- 1022); ulp = 2 powi (e - 52)
            in of_int (round_half_even (v / ulp)) * ulp))"

text \<open>
  The format \<open>.1f\<close>: the decimal with one fractional digit nearest to the value, a value
  halfway between two of them going to the even one. The result is in tenths.
\<close>

definition format_1f :: "real \<Rightarrow> int" where
  "format_1f v =
     (let f = \<lfloor>v * 10\<rfloor>; r = v * 10 - of_int f
      in if r < 1 / 2 then f
         else if 1 / 2 < r then f + 1
         else if even f then f else f + 1)"

text \<open>
  \<open>idxmax\<close> and \<open>idxmin\<close> scan the values once and return the index \<^emph>\<open>label\<close> of the first
  occurrence of the extremum; on an empty series they raise \<open>ValueError\<close>.
\<close>

fun scan_max :: "nat \<times> int32 \<Rightarrow> int32 series \<Rightarrow> nat \<times> int32" where
  "scan_max best [] = best"
| "scan_max best (p # ps) = scan_max (if sint (snd best) < sint (snd p) then p else best) ps"

fun scan_min :: "nat \<times> int32 \<Rightarrow> int32 series \<Rightarrow> nat \<times> int32" where
  "scan_min best [] = best"
| "scan_min best (p # ps) = scan_min (if sint (snd p) < sint (snd best) then p else best) ps"

fun idxmax :: "int32 series \<Rightarrow> exc + nat" where
  "idxmax [] = Inl (Exc ValueError ''attempt to get argmax of an empty sequence'')"
| "idxmax (p # ps) = Inr (fst (scan_max p ps))"

fun idxmin :: "int32 series \<Rightarrow> exc + nat" where
  "idxmin [] = Inl (Exc ValueError ''attempt to get argmin of an empty sequence'')"
| "idxmin (p # ps) = Inr (fst (scan_min p ps))"

text \<open>\<open>iloc\<close> reads by \<^emph>\<open>position\<close> and raises \<open>IndexError\<close> past the end.\<close>

definition iloc :: "'a series \<Rightarrow> nat \<Rightarrow> exc + 'a" where
  "iloc s i =
     (if i < length s then Inr (snd (s ! i))
      else Inl (Exc IndexError ''single positional indexer is out-of-bounds''))"

text \<open>The signed value an entry of the \<open>Stock\<close> series is compared by.\<close>

definition stock_key :: "nat \<times> int32 \<Rightarrow> int" where
  "stock_key q = sint (snd q)"

section \<open>\<^verbatim>\<open>print_statistics\<close>\<close>

text \<open>
  The result is the exception that leaves the method, if any, and the lines printed before
  it. The four aggregates are computed before the first line is printed; the two
  \<open>iloc\<close> lookups of a line are evaluated when that line is formatted.
\<close>

definition print_statistics :: "(real \<Rightarrow> real) \<Rightarrow> StockVisualizer \<Rightarrow> exc option \<times> line list" where
  "print_statistics fl self =
     (case df self of
        None \<Rightarrow> (None, [])
      | Some frame \<Rightarrow>
          (let stock_values = column_Stock frame;
               products = column_Product frame;
               total_stock = series_sum stock_values;
               avg_stock = series_mean fl stock_values
           in case idxmax stock_values of
                Inl e \<Rightarrow> (Some e, [])
              | Inr max_idx \<Rightarrow>
           (case idxmin stock_values of
                Inl e \<Rightarrow> (Some e, [])
              | Inr min_idx \<Rightarrow>
           (let report = [Rule, Heading, Rule, TotalStock total_stock,
                          Products (length products), AverageStock (format_1f avg_stock)]
            in case iloc products max_idx of
                 Inl e \<Rightarrow> (Some e, report)
               | Inr hp \<Rightarrow>
            (case iloc stock_values max_idx of
                 Inl e \<Rightarrow> (Some e, report)
               | Inr hs \<Rightarrow>
            (case iloc products min_idx of
                 Inl e \<Rightarrow> (Some e, report @ [Highest hp hs])
               | Inr lp \<Rightarrow>
            (case iloc stock_values min_idx of
                 Inl e \<Rightarrow> (Some e, report @ [Highest hp hs])
               | Inr ls \<Rightarrow> (None, report @ [Highest hp hs, Lowest lp ls]))))))))"

section \<open>\<^verbatim>\<open>create_visualization\<close>\<close>

text \<open>\<open>np.where(stock_values < EXPLODE_THRESHOLD, 0.05, 0)\<close>, element by element.\<close>

definition calculate_explode :: "int32 series \<Rightarrow> real list" where
  "calculate_explode stock_values =
     map (\<lambda>(l, v). if sint v < EXPLODE_THRESHOLD then 0.05 else 0) stock_values"

text \<open>The arguments of the \<open>ax.pie\<close> call; wedge \<open>i\<close> is made of the \<open>i\<close>-th entry of each list.\<close>

record pie_call =
  pie_x :: "int32 list"
  pie_labels :: "string option list"
  pie_autopct :: string
  pie_startangle :: nat
  pie_colors :: "string list"
  pie_explode :: "real list"
  pie_shadow :: bool

text \<open>The figure: the pie, the title and the legend entries \<open>Product: Stock\<close>.\<close>

record figure =
  fig_pie :: pie_call
  fig_title :: string
  fig_legend :: "(string option \<times> int32) list"

text \<open>Python's \<open>xs * k\<close> on a list.\<close>

definition list_times :: "'a list \<Rightarrow> nat \<Rightarrow> 'a list" where
  "list_times xs k = concat (replicate k xs)"

definition colors_cycle :: "nat \<Rightarrow> string list" where
  "colors_cycle total_products = list_times COLORS (total_products div length COLORS + 1)"

definition chart_of :: "dataframe \<Rightarrow> figure" where
  "chart_of frame =
     (let products = column_Product frame;
          stock_values = column_Stock frame;
          explode_values = calculate_explode stock_values;
          total_products = length products
      in \<lparr>fig_pie = \<lparr>pie_x = map snd stock_values,
                     pie_labels = map snd products,
                     pie_autopct = ''%1.1f%%'',
                     pie_startangle = 90,
                     pie_colors = take total_products (colors_cycle total_products),
                     pie_explode = explode_values,
                     pie_shadow = True\<rparr>,
          fig_title = ''Product Stock Distribution'',
          fig_legend = map (\<lambda>((l, prod), (l', stock)). (prod, stock)) (zip products stock_values)\<rparr>)"

text \<open>
  What \<open>ax.pie\<close> does with the wedge sizes before it draws: a negative size and sizes
  that are all zero are refused with \<open>ValueError\<close>.
\<close>

definition ax_pie :: "figure \<Rightarrow> exc option" where
  "ax_pie fig =
     (if list_ex (\<lambda>v. sint v < 0) (pie_x (fig_pie fig))
      then Some (Exc ValueError ''Wedge sizes 'x' must be non negative values'')
      else if sum_list (map sint (pie_x (fig_pie fig))) = 0
      then Some (Exc ValueError ''All wedge sizes are zero'')
      else None)"

text \<open>
  \<open>render\<close> is the plotting library: the exception it raises on this chart, \<open>None\<close> when
  it draws it.
\<close>

definition create_visualization ::
  "(figure \<Rightarrow> exc option) \<Rightarrow> StockVisualizer \<Rightarrow> exc + figure option" where
  "create_visualization render self =
     (case df self of
        None \<Rightarrow> Inr None
      | Some frame \<Rightarrow>
          (case render (chart_of frame) of
             Some e \<Rightarrow> Inl e
           | None \<Rightarrow> Inr (Some (chart_of frame))))"

section \<open>\<^verbatim>\<open>save_chart\<close> and \<^verbatim>\<open>cleanup\<close>\<close>

text \<open>
  \<open>savefig\<close> is the write of the figure to a file name: the exception it raises, \<open>None\<close>
  when the file is written. \<open>except Exception\<close> does not catch \<open>KeyboardInterrupt\<close> or
  \<open>SystemExit\<close>.
\<close>

definition save_chart ::
  "(string \<Rightarrow> exc option) \<Rightarrow> figure \<Rightarrow> string \<Rightarrow> (exc + bool) \<times> event list" where
  "save_chart savefig fig filename =
     (case savefig filename of
        None \<Rightarrow> (Inr True, [Savefig filename DPI, Print (ChartSaved filename)])
      | Some e \<Rightarrow>
          if is_Exception e
          then (Inr False, [Savefig filename DPI, Print (SaveError (str_exc e))])
          else (Inl e, [Savefig filename DPI]))"

text \<open>
  \<open>cleanup\<close> closes the figures and deletes the attribute \<open>df\<close> when it holds a data
  frame. Nothing reads the visualizer afterwards, so the result is the events only.
\<close>

definition cleanup :: "StockVisualizer \<Rightarrow> event list" where
  "cleanup self = CloseAll # (if df self \<noteq> None then [DelDf] else [])"

section \<open>\<^verbatim>\<open>main\<close>\<close>

text \<open>Everything outside the script that a run depends on.\<close>

record world =
  files :: "string \<rightharpoonup> csv_content"
  float64 :: "real \<Rightarrow> real"
  renderer :: "figure \<Rightarrow> exc option"
  show_plot :: "exc option"
  user_input :: "exc + string"
  writer :: "string \<Rightarrow> exc option"

text \<open>\<open>str.lower\<close> on the ASCII letters.\<close>

definition lower_char :: "char \<Rightarrow> char" where
  "lower_char c =
     (case map_of (zip ''ABCDEFGHIJKLMNOPQRSTUVWXYZ'' ''abcdefghijklmnopqrstuvwxyz'') c of
        Some c' \<Rightarrow> c'
      | None \<Rightarrow> c)"

definition lower :: "string \<Rightarrow> string" where
  "lower s = map lower_char s"

text \<open>
  The body of the \<open>try\<close> block, in two parts: the statements after a successful
  \<open>load_data\<close>, run on the visualizer \<open>v\<close> with the events \<open>ev\<close> so far, and the
  whole body. The result is the returned status or the exception raised, the visualizer and
  the events.
\<close>

definition main_after_load ::
  "world \<Rightarrow> StockVisualizer \<Rightarrow> event list \<Rightarrow> (exc + int) \<times> StockVisualizer \<times> event list" where
  "main_after_load w v ev =
     (case create_visualization (renderer w) v of
        Inl e \<Rightarrow> (Inl e, v, ev)
      | Inr None \<Rightarrow> (Inr 1, v, ev @ [Print RenderFailed])
      | Inr (Some fig) \<Rightarrow>
     (case print_statistics (float64 w) v of
        (Some e, ls) \<Rightarrow> (Inl e, v, ev @ map Print ls)
      | (None, ls) \<Rightarrow>
     (case show_plot w of
        Some e \<Rightarrow> (Inl e, v, ev @ map Print ls @ [ShowPlot])
      | None \<Rightarrow>
     (case user_input w of
        Inl e \<Rightarrow> (Inl e, v, ev @ map Print ls @ [ShowPlot, Input])
      | Inr answer \<Rightarrow>
          if lower answer = ''y''
          then (case save_chart (writer w) fig ''stock_chart.png'' of
                  (Inl e, sv) \<Rightarrow> (Inl e, v, ev @ map Print ls @ [ShowPlot, Input] @ sv)
                | (Inr saved, sv) \<Rightarrow> (Inr 0, v, ev @ map Print ls @ [ShowPlot, Input] @ sv))
          else (Inr 0, v, ev @ map Print ls @ [ShowPlot, Input])))))"

definition main_try :: "world \<Rightarrow> (exc + int) \<times> StockVisualizer \<times> event list" where
  "main_try w =
     (case load_data (files w) (init_visualizer CSV_FILE) of
        (Inl e, v, ev) \<Rightarrow> (Inl e, v, ev)
      | (Inr False, v, ev) \<Rightarrow> (Inr 1, v, ev)
      | (Inr True, v, ev) \<Rightarrow> main_after_load w v ev)"

text \<open>
  The handlers and the \<open>finally\<close> clause: \<open>KeyboardInterrupt\<close> and every \<open>Exception\<close>
  become status 1, any other exception leaves \<open>main\<close>; \<open>cleanup\<close> runs on every path.
\<close>

definition main :: "world \<Rightarrow> (exc + int) \<times> event list" where
  "main w =
     (case main_try w of
        (Inr status, v, ev) \<Rightarrow> (Inr status, ev @ cleanup v)
      | (Inl KeyboardInterrupt, v, ev) \<Rightarrow> (Inr 1, ev @ [Print Cancelled] @ cleanup v)
      | (Inl (Exc c msg), v, ev) \<Rightarrow> (Inr 1, ev @ [Print (Unexpected msg)] @ cleanup v)
      | (Inl SystemExit, v, ev) \<Rightarrow> (Inl SystemExit, ev @ cleanup v))"

section \<open>Example inputs\<close>

definition csv_line :: "string \<Rightarrow> stock_cell \<Rightarrow> csv_row" where
  "csv_line p c = \<lparr>product_field = p, stock_field = c\<rparr>"

text \<open>Three complete rows with the stocks 10, 20 and 5.\<close>

definition example_table :: csv_content where
  "example_table =
     Table [''Product'', ''Stock'']
       [csv_line ''Widget'' (StockInt 10),
        csv_line ''Gadget'' (StockInt 20),
        csv_line ''Gizmo'' (StockInt 5)]"

text \<open>
  The file
  \<^verbatim>\<open>Product,Stock\<close>, \<^verbatim>\<open>,1\<close>, \<^verbatim>\<open>A,99\<close>, \<^verbatim>\<open>B,10\<close>:
  the first data row has no Product.
\<close>

definition dropped_row_table :: csv_content where
  "dropped_row_table =
     Table [''Product'', ''Stock'']
       [csv_line '''' (StockInt 1),
        csv_line ''A'' (StockInt 99),
        csv_line ''B'' (StockInt 10)]"

text \<open>
  The file
  \<^verbatim>\<open>Product,Stock\<close>, \<^verbatim>\<open>,7\<close>, \<^verbatim>\<open>A,10\<close>, \<^verbatim>\<open>B,20\<close>, \<^verbatim>\<open>C,5\<close>:
  the stocks 10, 20 and 5 after a row without a Product.
\<close>

definition dropped_row_stocks_table :: csv_content where
  "dropped_row_stocks_table =
     Table [''Product'', ''Stock'']
       [csv_line '''' (StockInt 7),
        csv_line ''A'' (StockInt 10),
        csv_line ''B'' (StockInt 20),
        csv_line ''C'' (StockInt 5)]"

text \<open>
  The file
  \<^verbatim>\<open>Product,Stock\<close>, \<^verbatim>\<open>A,10\<close>, \<^verbatim>\<open>B,\<close>:
  the second data row has no Stock.
\<close>

definition missing_stock_table :: csv_content where
  "missing_stock_table =
     Table [''Product'', ''Stock'']
       [csv_line ''A'' (StockInt 10),
        csv_line ''B'' StockNA]"


text \<open>
  A world with one file under the default path, float64 arithmetic, the wedge size checks
  of \<open>ax.pie\<close>, a display and a disk that accept everything, and a user who types
  \<open>answer\<close>.
\<close>

definition example_world :: "csv_content \<Rightarrow> string \<Rightarrow> world" where
  "example_world content answer =
     \<lparr>files = [CSV_FILE \<mapsto> content], float64 = round_float64, renderer = ax_pie,
      show_plot = None, user_input = Inr answer, writer = (\<lambda>filename. None)\<rparr>"

definition example_frame :: "nat \<Rightarrow> dataframe" where
  "example_frame n =
     \<lparr>columns = [''Product'', ''Stock''],
      rows = map (\<lambda>i. \<lparr>label = i, Product = Some ''item'', Stock = of_nat i + 20\<rparr>) [0..<n]\<rparr>"

section \<open>The colour cycle and the explode offsets\<close>

lemma length_list_times: "length (list_times xs k) = k * length xs"
  by (induction k) (simp_all add: list_times_def)

lemma length_COLORS: "length COLORS = 10"
  by (simp add: COLORS_def)

lemma list_times_nth:
  "i < k * length xs \<Longrightarrow> list_times xs k ! i = xs ! (i mod length xs)"
proof (induction k arbitrary: i)
  case 0
  then show ?case by simp
next
  case (Suc k)
  show ?case
  proof (cases "i < length xs")
    case True
    then show ?thesis by (simp add: list_times_def nth_append)
  next
    case False
    then have "i - length xs < k * length xs" using Suc.prems by simp
    then have "list_times xs k ! (i - length xs) = xs ! ((i - length xs) mod length xs)"
      by (rule Suc.IH)
    moreover have "(i - length xs) mod length xs = i mod length xs"
      using False by (simp add: le_mod_geq)
    ultimately show ?thesis using False
      by (simp add: list_times_def nth_append)
  qed
qed

lemma length_colors_cycle: "length (colors_cycle n) = (n div 10 + 1) * 10"
  by (simp add: colors_cycle_def length_list_times length_COLORS)

lemma colors_cycle_long: "n < length (colors_cycle n)"
proof -
  have "n < (n div 10 + 1) * 10"
    by presburger
  then show ?thesis
    by (simp add: length_colors_cycle)
qed

lemma colors_cycle_nth:
  "i < length (colors_cycle n) \<Longrightarrow> colors_cycle n ! i = COLORS ! (i mod 10)"
  using list_times_nth [of i "n div length COLORS + 1" COLORS]
  by (simp add: colors_cycle_def length_list_times length_COLORS)

lemma length_calculate_explode: "length (calculate_explode s) = length s"
  by (simp add: calculate_explode_def)

lemma calculate_explode_nth:
  "i < length s \<Longrightarrow>
   calculate_explode s ! i = (if sint (snd (s ! i)) < 30 then 0.05 else 0)"
  by (simp add: calculate_explode_def EXPLODE_THRESHOLD_def split: prod.splits)

lemma pie_lists:
  "pie_x (fig_pie (chart_of frame)) = map Stock (rows frame)"
  "pie_labels (fig_pie (chart_of frame)) = map Product (rows frame)"
  "pie_explode (fig_pie (chart_of frame)) = calculate_explode (column_Stock frame)"
  "pie_colors (fig_pie (chart_of frame)) =
     take (length (rows frame)) (colors_cycle (length (rows frame)))"
  by (simp_all add: chart_of_def Let_def column_Stock_def column_Product_def comp_def)

lemma rows_example_frame:
  "length (rows (example_frame n)) = n"
  "i < n \<Longrightarrow> Stock (rows (example_frame n) ! i) = of_nat i + 20"
  by (simp_all add: example_frame_def)

text \<open>
  C2. The explode list handed to the pie has one offset per record: 0.05 where the record's
  Stock is below 30, 0 where it is 30 or more; Stock 30 gives 0 and Stock 29 gives 0.05.
\<close>

theorem explode_offset_threshold:
  "length (pie_explode (fig_pie (chart_of frame))) = length (rows frame) \<and>
   (\<forall>i < length (rows frame).
      pie_explode (fig_pie (chart_of frame)) ! i =
        (if sint (Stock (rows frame ! i)) < 30 then 0.05 else 0)) \<and>
   calculate_explode [(l, 30)] = [0] \<and>
   calculate_explode [(l, 29)] = [0.05]"
  by (simp add: pie_lists length_calculate_explode calculate_explode_nth column_Stock_def)
    (simp add: calculate_explode_def EXPLODE_THRESHOLD_def)

theorem explode_offset_threshold_witness:
  "(9::nat) < length (rows (example_frame 12)) \<and> (10::nat) < length (rows (example_frame 12)) \<and>
   pie_explode (fig_pie (chart_of (example_frame 12))) ! 9 = 0.05 \<and>
   pie_explode (fig_pie (chart_of (example_frame 12))) ! 10 = 0"
  using explode_offset_threshold [of "example_frame 12" 0]
  by (simp add: rows_example_frame)

text \<open>
  C3. The colour list handed to the pie gives record \<open>i\<close> (counted from 0) the palette
  colour \<open>i mod 10\<close>; with 23 records the 1st, 11th and 21st get the same colour.
\<close>

theorem color_assignment_cycles:
  "(\<forall>i < length (rows frame).
      pie_colors (fig_pie (chart_of frame)) ! i = COLORS ! (i mod 10)) \<and>
   (length (rows frame) = 23 \<longrightarrow>
      pie_colors (fig_pie (chart_of frame)) ! 0 = pie_colors (fig_pie (chart_of frame)) ! 10 \<and>
      pie_colors (fig_pie (chart_of frame)) ! 10 = pie_colors (fig_pie (chart_of frame)) ! 20)"
proof -
  have nth: "pie_colors (fig_pie (chart_of frame)) ! i = COLORS ! (i mod 10)"
    if "i < length (rows frame)" for i
  proof -
    from that colors_cycle_long [of "length (rows frame)"]
    have "i < length (colors_cycle (length (rows frame)))" by simp
    with that show ?thesis by (simp add: pie_lists colors_cycle_nth)
  qed
  then show ?thesis by simp
qed

theorem color_assignment_cycles_witness:
  "length (rows (example_frame 23)) = 23 \<and>
   pie_colors (fig_pie (chart_of (example_frame 23))) ! 0 = ''#FF6B6B'' \<and>
   pie_colors (fig_pie (chart_of (example_frame 23))) ! 10 = ''#FF6B6B'' \<and>
   pie_colors (fig_pie (chart_of (example_frame 23))) ! 20 = ''#FF6B6B'' \<and>
   pie_colors (fig_pie (chart_of (example_frame 23))) ! 12 = ''#45B7D1''"
  using color_assignment_cycles [of "example_frame 23"]
  by (simp add: rows_example_frame COLORS_def)

text \<open>
  C10. For every record count \<open>n\<close> the palette repeated \<open>n div 10 + 1\<close> times has
  \<open>10 * (n div 10 + 1)\<close> entries, which is at least \<open>n\<close>, so its first \<open>n\<close> entries are
  exactly \<open>n\<close> colours: the pie gets as many colours as it gets wedges.
\<close>

theorem colors_cycle_covers_records:
  "length (colors_cycle n) = 10 * (n div 10 + 1) \<and>
   n \<le> length (colors_cycle n) \<and>
   length (take n (colors_cycle n)) = n \<and>
   length (pie_colors (fig_pie (chart_of frame))) = length (pie_x (fig_pie (chart_of frame)))"
  using colors_cycle_long [of n] colors_cycle_long [of "length (rows frame)"]
  by (simp add: length_colors_cycle pie_lists)

section \<open>Loading\<close>

lemma required_columns_kept:
  "REQUIRED_COLUMNS \<subseteq> set header \<Longrightarrow>
   REQUIRED_COLUMNS \<subseteq> set (filter (\<lambda>c. c \<in> REQUIRED_COLUMNS) header)"
  by auto

text \<open>
  The scan of the Stock column finds nothing exactly when every cell is an integer literal
  or NA; without a literal beyond uint64 what it finds is a \<open>ValueError\<close>.
\<close>

lemma first_bad_literal_None:
  "first_bad_literal cells = None \<longleftrightarrow>
     (\<forall>c \<in> set cells. c = StockNA \<or> (\<exists>v. c = StockInt v))"
  by (induction cells rule: first_bad_literal.induct) auto

lemma first_bad_literal_ValueError:
  "StockOverflow \<notin> set cells \<Longrightarrow>
   first_bad_literal cells = None \<or> (\<exists>msg. first_bad_literal cells = Some (Exc ValueError msg))"
  by (induction cells rule: first_bad_literal.induct) auto

lemma stock_error_None:
  "stock_error col cells = None \<longleftrightarrow> (\<forall>c \<in> set cells. \<exists>v. c = StockInt v)"
proof (cases "first_bad_literal cells")
  case None
  then have "\<forall>c \<in> set cells. c = StockNA \<or> (\<exists>v. c = StockInt v)"
    by (simp add: first_bad_literal_None)
  with None show ?thesis
    by (auto simp add: stock_error_def)
next
  case (Some e)
  then have "\<not> (\<forall>c \<in> set cells. c = StockNA \<or> (\<exists>v. c = StockInt v))"
    using first_bad_literal_None [of cells] by simp
  with Some show ?thesis
    by (auto simp add: stock_error_def)
qed

lemma stock_error_ValueError:
  assumes "StockOverflow \<notin> set cells"
    and "c \<in> set cells" and "c = StockNA \<or> (\<exists>t. c = StockText t)"
  shows "\<exists>msg. stock_error col cells = Some (Exc ValueError msg)"
proof (cases "first_bad_literal cells")
  case None
  with assms(2,3) have "StockNA \<in> set cells"
    by (auto simp add: first_bad_literal_None)
  with None show ?thesis
    by (simp add: stock_error_def)
next
  case (Some e)
  with first_bad_literal_ValueError [OF assms(1)] show ?thesis
    by (auto simp add: stock_error_def)
qed

text \<open>
  When every Stock cell is an integer literal the rows are kept in order and numbered
  from \<open>n\<close>.
\<close>

lemma convert_rows_complete:
  "\<forall>r \<in> set body. \<exists>v. stock_field r = StockInt v \<Longrightarrow>
   map label (convert_rows n body) = [n ..< n + length body] \<and>
   map Product (convert_rows n body) = map (\<lambda>r. read_product (product_field r)) body \<and>
   map (\<lambda>r. StockInt (Stock r)) (convert_rows n body) = map stock_field body"
proof (induction body arbitrary: n)
  case Nil
  show ?case by simp
next
  case (Cons r body)
  from Cons.prems obtain v where v: "stock_field r = StockInt v"
    by auto
  from Cons.prems have "\<forall>r \<in> set body. \<exists>v. stock_field r = StockInt v"
    by simp
  from Cons.IH [OF this, of "Suc n"] v show ?case
    by (simp add: upt_rec)
qed

text \<open>
  What \<open>load_data\<close> does on a table with both columns. With every Stock cell an integer
  literal, the rows whose Product is an NA marker are dropped, the data frame has as many
  rows as the file has rows with a Product, and the result is \<open>True\<close> exactly when there
  is one.
\<close>

lemma load_data_complete_stock:
  assumes stored: "fs (csv_path self) = Some (Table header body)"
    and header: "REQUIRED_COLUMNS \<subseteq> set header"
    and stock: "\<forall>r \<in> set body. \<exists>v. stock_field r = StockInt v"
  shows "\<exists>frame. df (fst (snd (load_data fs self))) = Some frame \<and>
           length (rows frame) = length (filter (\<lambda>r. product_field r \<notin> NA_VALUES) body) \<and>
           (\<forall>r \<in> set (rows frame). Product r \<noteq> None) \<and>
           fst (load_data fs self) = Inr (\<exists>r \<in> set body. product_field r \<notin> NA_VALUES)"
proof -
  let ?rs = "convert_rows 0 body"
  from stock have ok: "stock_error (column_index ''Stock'' header) (map stock_field body) = None"
    by (simp add: stock_error_None)
  from convert_rows_complete [OF stock, of 0]
  have products: "map Product ?rs = map (\<lambda>r. read_product (product_field r)) body"
    by simp
  let ?kept = "filter (\<lambda>r. Product r \<noteq> None) ?rs"
  let ?frame = "\<lparr>columns = filter (\<lambda>c. c \<in> REQUIRED_COLUMNS) header, rows = ?kept\<rparr>"
  have "length ?kept = length (filter (\<lambda>p. p \<noteq> None) (map Product ?rs))"
    by (simp add: filter_map comp_def)
  also have "\<dots> = length (filter (\<lambda>r. read_product (product_field r) \<noteq> None) body)"
    by (simp add: products filter_map comp_def)
  also have "\<dots> = length (filter (\<lambda>r. product_field r \<notin> NA_VALUES) body)"
    by (simp add: read_product_def)
  finally have len: "length ?kept = length (filter (\<lambda>r. product_field r \<notin> NA_VALUES) body)" .
  have "?kept = [] \<longleftrightarrow> filter (\<lambda>r. product_field r \<notin> NA_VALUES) body = []"
    using len by (metis length_0_conv)
  then have empty: "?kept = [] \<longleftrightarrow> \<not> (\<exists>r \<in> set body. product_field r \<notin> NA_VALUES)"
    by (simp add: filter_empty_conv)
  have "load_data fs self =
          (Inr (\<exists>r \<in> set body. product_field r \<notin> NA_VALUES), self\<lparr>df := Some ?frame\<rparr>,
           if \<exists>r \<in> set body. product_field r \<notin> NA_VALUES then [ReadCsv (csv_path self)]
           else [ReadCsv (csv_path self), Print NoValidData])"
    using stored header required_columns_kept [OF header] ok empty
    by (simp add: load_data_def dropna_def empty_frame_def)
  with len show ?thesis
    by (intro exI [of _ ?frame]) simp
qed

text \<open>
  With one Stock cell that is empty or not an integer literal, and no literal beyond
  uint64, \<open>read_csv\<close> raises \<open>ValueError\<close>, \<open>load_data\<close> returns \<open>False\<close> and no data
  frame is stored, whatever the other rows hold.
\<close>

lemma load_data_incomplete_stock:
  assumes stored: "fs (csv_path self) = Some (Table header body)"
    and header: "REQUIRED_COLUMNS \<subseteq> set header"
    and range: "\<forall>r \<in> set body. stock_field r \<noteq> StockOverflow"
    and row: "r \<in> set body" "stock_field r = StockNA \<or> (\<exists>t. stock_field r = StockText t)"
  shows "fst (load_data fs self) = Inr False \<and> fst (snd (load_data fs self)) = self"
proof -
  from range have "StockOverflow \<notin> set (map stock_field body)"
    by auto
  moreover from row(1) have "stock_field r \<in> set (map stock_field body)"
    by simp
  ultimately obtain msg where
    "stock_error (column_index ''Stock'' header) (map stock_field body) = Some (Exc ValueError msg)"
    using stock_error_ValueError row(2) by blast
  with stored header show ?thesis
    by (simp add: load_data_def)
qed

text \<open>
  \<open>OverflowError\<close> is not among the exceptions that \<open>load_data\<close> catches: when the scan
  of the Stock column stops at a literal beyond uint64, the exception leaves \<open>load_data\<close>.
\<close>

lemma load_data_overflow:
  assumes stored: "fs (csv_path self) = Some (Table header body)"
    and header: "REQUIRED_COLUMNS \<subseteq> set header"
    and scan: "first_bad_literal (map stock_field body) = Some (Exc OverflowError msg)"
  shows "fst (load_data fs self) = Inl (Exc OverflowError msg)"
  using stored header scan by (simp add: load_data_def stock_error_def)

text \<open>
  When no row lacks a Product either, nothing is dropped: the data frame holds the rows of
  the file in order, labelled by their positions.
\<close>

lemma load_data_default_index:
  assumes stored: "fs (csv_path self) = Some (Table header body)"
    and header: "REQUIRED_COLUMNS \<subseteq> set header"
    and stock: "\<forall>r \<in> set body. \<exists>v. stock_field r = StockInt v"
    and product: "\<forall>r \<in> set body. product_field r \<notin> NA_VALUES"
    and nonempty: "body \<noteq> []"
  shows "\<exists>frame. load_data fs self = (Inr True, self\<lparr>df := Some frame\<rparr>, [ReadCsv (csv_path self)]) \<and>
           rows frame \<noteq> [] \<and>
           map label (rows frame) = [0 ..< length (rows frame)] \<and>
           map Product (rows frame) = map (\<lambda>r. Some (product_field r)) body \<and>
           map (\<lambda>r. StockInt (Stock r)) (rows frame) = map stock_field body"
proof -
  let ?rs = "convert_rows 0 body"
  from stock have ok: "stock_error (column_index ''Stock'' header) (map stock_field body) = None"
    by (simp add: stock_error_None)
  from convert_rows_complete [OF stock, of 0]
  have rs: "map label ?rs = [0 ..< 0 + length body]"
       "map Product ?rs = map (\<lambda>r. read_product (product_field r)) body"
       "map (\<lambda>r. StockInt (Stock r)) ?rs = map stock_field body"
    by simp_all
  from rs(2) have len: "length ?rs = length body"
    by (rule map_eq_imp_length_eq)
  from product have some: "map (\<lambda>r. read_product (product_field r)) body =
      map (\<lambda>r. Some (product_field r)) body"
    by (simp add: read_product_def)
  have "Product r \<noteq> None" if "r \<in> set ?rs" for r
  proof -
    from that have "Product r \<in> set (map Product ?rs)" by simp
    then have "Product r \<in> (\<lambda>r. Some (product_field r)) ` set body"
      by (simp add: rs(2) some)
    then show ?thesis by auto
  qed
  then have keep: "filter (\<lambda>r. Product r \<noteq> None) ?rs = ?rs"
    by (simp add: filter_id_conv)
  let ?frame = "\<lparr>columns = filter (\<lambda>c. c \<in> REQUIRED_COLUMNS) header, rows = ?rs\<rparr>"
  from nonempty len have ne: "?rs \<noteq> []" by auto
  then have "load_data fs self = (Inr True, self\<lparr>df := Some ?frame\<rparr>, [ReadCsv (csv_path self)])"
    using stored header required_columns_kept [OF header] ok keep
    by (simp add: load_data_def dropna_def empty_frame_def)
  with rs len ne some show ?thesis
    by (intro exI [of _ ?frame]) simp
qed

text \<open>
  C4. On the file with the rows \<open>A,10\<close> and \<open>B,\<close> (one valid row, one row without Stock)
  \<open>load_data\<close> does not return a one-row dataset: the int32 conversion of the Stock column
  raises \<open>ValueError\<close> inside \<open>read_csv\<close>, the handler prints it and the result is
  \<open>False\<close>, with no data frame stored.
\<close>

theorem load_data_missing_stock_row:
  "load_data [CSV_FILE \<mapsto> missing_stock_table] (init_visualizer CSV_FILE) =
     (Inr False, init_visualizer CSV_FILE,
      [ReadCsv CSV_FILE, Print (ReadError ''Integer column has NA values in column 1'')])"
  by (simp add: load_data_def missing_stock_table_def init_visualizer_def csv_line_def
      REQUIRED_COLUMNS_def stock_error_def str_nat.simps)

text \<open>
  C5. \<open>load_data\<close> returns \<open>False\<close>, and raises nothing, when nothing exists at the path,
  when the file is empty, when it does not parse and when a required column is missing
  from the header. When nothing exists at the path it prints the message and does no
  more: \<open>read_csv\<close> is not called and the visualizer is unchanged.
\<close>

theorem load_data_failure_cases:
  "(fs (csv_path self) = None \<longrightarrow>
      load_data fs self = (Inr False, self, [Print (NotFound (csv_path self))]) \<and>
      ReadCsv (csv_path self) \<notin> set (snd (snd (load_data fs self)))) \<and>
   (fs (csv_path self) = Some EmptyFile \<longrightarrow> fst (load_data fs self) = Inr False) \<and>
   (fs (csv_path self) = Some (Malformed msg) \<longrightarrow> fst (load_data fs self) = Inr False) \<and>
   (fs (csv_path self) = Some (Table header body) \<and> \<not> REQUIRED_COLUMNS \<subseteq> set header \<longrightarrow>
      fst (load_data fs self) = Inr False)"
  by (simp add: load_data_def)

theorem load_data_failure_cases_witness:
  "load_data Map.empty (init_visualizer CSV_FILE) =
     (Inr False, init_visualizer CSV_FILE, [Print (NotFound ''product_stock.csv'')]) \<and>
   fst (load_data [CSV_FILE \<mapsto> EmptyFile] (init_visualizer CSV_FILE)) = Inr False \<and>
   fst (load_data
          [CSV_FILE \<mapsto> Malformed ''Error tokenizing data. C error: Expected 2 fields in line 3, saw 5'']
          (init_visualizer CSV_FILE)) = Inr False \<and>
   fst (load_data [CSV_FILE \<mapsto> Table [''Product'', ''Price''] []]
          (init_visualizer CSV_FILE)) = Inr False"
  using
    load_data_failure_cases [of Map.empty "init_visualizer CSV_FILE"]
    load_data_failure_cases [of "[CSV_FILE \<mapsto> EmptyFile]" "init_visualizer CSV_FILE"]
    load_data_failure_cases
      [of "[CSV_FILE \<mapsto> Malformed ''Error tokenizing data. C error: Expected 2 fields in line 3, saw 5'']"
        "init_visualizer CSV_FILE"
        "''Error tokenizing data. C error: Expected 2 fields in line 3, saw 5''"]
    load_data_failure_cases [of "[CSV_FILE \<mapsto> Table [''Product'', ''Price''] []]"
      "init_visualizer CSV_FILE" _ "[''Product'', ''Price'']" "[]"]
  by (simp add: init_visualizer_def CSV_FILE_def REQUIRED_COLUMNS_def)

section \<open>Statistics\<close>

lemma Max_skip_small:
  fixes a b :: int
  assumes "finite A" and "b \<in> A" and "a \<le> b"
  shows "Max (insert a A) = Max A"
proof (rule Max_eqI)
  show "finite (insert a A)" using assms by simp
  have "A \<noteq> {}" using assms by auto
  then show "Max A \<in> insert a A" using assms Max_in [of A] by simp
  have "b \<le> Max A" using assms by (intro Max_ge)
  with assms(3) have "a \<le> Max A" by (rule order_trans)
  moreover fix y assume "y \<in> insert a A"
  ultimately show "y \<le> Max A"
    using assms by auto
qed

lemma Min_skip_large:
  fixes a b :: int
  assumes "finite A" and "b \<in> A" and "b \<le> a"
  shows "Min (insert a A) = Min A"
proof (rule Min_eqI)
  show "finite (insert a A)" using assms by simp
  have "A \<noteq> {}" using assms by auto
  then show "Min A \<in> insert a A" using assms Min_in [of A] by simp
  have "Min A \<le> b" using assms by (intro Min_le)
  then have "Min A \<le> a" using assms(3) by (rule order_trans)
  moreover fix y assume "y \<in> insert a A"
  ultimately show "Min A \<le> y"
    using assms by auto
qed

text \<open>The scan returns the first entry, in series order, that holds the largest value.\<close>

lemma scan_max_find:
  "find (\<lambda>q. stock_key q = Max (stock_key ` set (best # ps))) (best # ps)
     = Some (scan_max best ps)"
proof (induction ps arbitrary: best)
  case Nil
  show ?case by simp
next
  case (Cons p ps)
  show ?case
  proof (cases "stock_key best < stock_key p")
    case True
    have "Max (insert (stock_key best) (stock_key ` set (p # ps))) = Max (stock_key ` set (p # ps))"
      using True by (intro Max_skip_small [of _ "stock_key p"]) simp_all
    then have m: "Max (stock_key ` set (best # p # ps)) = Max (stock_key ` set (p # ps))"
      by simp
    have "stock_key p \<le> Max (stock_key ` set (p # ps))"
      by (intro Max_ge) simp_all
    with True have "stock_key best \<noteq> Max (stock_key ` set (p # ps))"
      by linarith
    with True Cons.IH [of p] show ?thesis
      unfolding m by (simp add: stock_key_def)
  next
    case False
    have "Max (insert (stock_key p) (stock_key ` set (best # ps))) = Max (stock_key ` set (best # ps))"
      using False by (intro Max_skip_small [of _ "stock_key best"]) simp_all
    moreover have "stock_key ` set (best # p # ps) = insert (stock_key p) (stock_key ` set (best # ps))"
      by auto
    ultimately have m: "Max (stock_key ` set (best # p # ps)) = Max (stock_key ` set (best # ps))"
      by simp
    show ?thesis
    proof (cases "stock_key best = Max (stock_key ` set (best # ps))")
      case True
      with False Cons.IH [of best] show ?thesis
        unfolding m by (simp add: stock_key_def)
    next
      case neq: False
      have "stock_key best \<le> Max (stock_key ` set (best # ps))"
        by (intro Max_ge) simp_all
      with neq False have "stock_key p \<noteq> Max (stock_key ` set (best # ps))"
        by linarith
      with neq False Cons.IH [of best] show ?thesis
        unfolding m by (simp add: stock_key_def)
    qed
  qed
qed

lemma scan_min_find:
  "find (\<lambda>q. stock_key q = Min (stock_key ` set (best # ps))) (best # ps)
     = Some (scan_min best ps)"
proof (induction ps arbitrary: best)
  case Nil
  show ?case by simp
next
  case (Cons p ps)
  show ?case
  proof (cases "stock_key p < stock_key best")
    case True
    have "Min (insert (stock_key best) (stock_key ` set (p # ps))) = Min (stock_key ` set (p # ps))"
      using True by (intro Min_skip_large [of _ "stock_key p"]) simp_all
    then have m: "Min (stock_key ` set (best # p # ps)) = Min (stock_key ` set (p # ps))"
      by simp
    have "Min (stock_key ` set (p # ps)) \<le> stock_key p"
      by (intro Min_le) simp_all
    with True have "stock_key best \<noteq> Min (stock_key ` set (p # ps))"
      by linarith
    with True Cons.IH [of p] show ?thesis
      unfolding m by (simp add: stock_key_def)
  next
    case False
    have "Min (insert (stock_key p) (stock_key ` set (best # ps))) = Min (stock_key ` set (best # ps))"
      using False by (intro Min_skip_large [of _ "stock_key best"]) simp_all
    moreover have "stock_key ` set (best # p # ps) = insert (stock_key p) (stock_key ` set (best # ps))"
      by auto
    ultimately have m: "Min (stock_key ` set (best # p # ps)) = Min (stock_key ` set (best # ps))"
      by simp
    show ?thesis
    proof (cases "stock_key best = Min (stock_key ` set (best # ps))")
      case True
      with False Cons.IH [of best] show ?thesis
        unfolding m by (simp add: stock_key_def)
    next
      case neq: False
      have "Min (stock_key ` set (best # ps)) \<le> stock_key best"
        by (intro Min_le) simp_all
      with neq False have "stock_key p \<noteq> Min (stock_key ` set (best # ps))"
        by linarith
      with neq False Cons.IH [of best] show ?thesis
        unfolding m by (simp add: stock_key_def)
    qed
  qed
qed

text \<open>
  \<open>idxmax\<close> returns the label stored at the first position of the largest value, \<open>idxmin\<close>
  the label stored at the first position of the smallest.
\<close>

lemma idxmax_first:
  assumes "s \<noteq> []"
  shows "\<exists>i < length s. idxmax s = Inr (fst (s ! i)) \<and>
           (\<forall>k < length s. stock_key (s ! k) \<le> stock_key (s ! i)) \<and>
           (\<forall>k < i. stock_key (s ! k) < stock_key (s ! i))"
proof -
  from assms obtain p ps where s: "s = p # ps"
    by (cases s) auto
  let ?m = "Max (stock_key ` set s)"
  from scan_max_find [of p ps] s
  have "find (\<lambda>q. stock_key q = ?m) s = Some (scan_max p ps)"
    by simp
  then obtain i where i: "i < length s" "stock_key (s ! i) = ?m" "scan_max p ps = s ! i"
    "\<forall>k < i. stock_key (s ! k) \<noteq> ?m"
    unfolding find_Some_iff by blast
  have le: "stock_key (s ! k) \<le> ?m" if "k < length s" for k
    using that by (intro Max_ge) simp_all
  have "stock_key (s ! k) < stock_key (s ! i)" if "k < i" for k
  proof -
    from that i have "stock_key (s ! k) \<noteq> ?m" and "stock_key (s ! k) \<le> ?m"
      using le [of k] by simp_all
    with i show ?thesis by simp
  qed
  with i le s show ?thesis
    by (intro exI [of _ i]) simp
qed

lemma idxmin_first:
  assumes "s \<noteq> []"
  shows "\<exists>i < length s. idxmin s = Inr (fst (s ! i)) \<and>
           (\<forall>k < length s. stock_key (s ! i) \<le> stock_key (s ! k)) \<and>
           (\<forall>k < i. stock_key (s ! i) < stock_key (s ! k))"
proof -
  from assms obtain p ps where s: "s = p # ps"
    by (cases s) auto
  let ?m = "Min (stock_key ` set s)"
  from scan_min_find [of p ps] s
  have "find (\<lambda>q. stock_key q = ?m) s = Some (scan_min p ps)"
    by simp
  then obtain i where i: "i < length s" "stock_key (s ! i) = ?m" "scan_min p ps = s ! i"
    "\<forall>k < i. stock_key (s ! k) \<noteq> ?m"
    unfolding find_Some_iff by blast
  have le: "?m \<le> stock_key (s ! k)" if "k < length s" for k
    using that by (intro Min_le) simp_all
  have "stock_key (s ! i) < stock_key (s ! k)" if "k < i" for k
  proof -
    from that i have "stock_key (s ! k) \<noteq> ?m" and "?m \<le> stock_key (s ! k)"
      using le [of k] by simp_all
    with i show ?thesis by simp
  qed
  with i le s show ?thesis
    by (intro exI [of _ i]) simp
qed

text \<open>
  On a data frame whose labels are the positions (no row was dropped), the label that
  \<open>idxmax\<close> returns is the position \<open>iloc\<close> reads: the report names the first row with the
  largest Stock and the first row with the smallest Stock.
\<close>

lemma print_statistics_default_index:
  assumes frame: "df self = Some frame"
    and nonempty: "rows frame \<noteq> []"
    and labels: "map label (rows frame) = [0 ..< length (rows frame)]"
  shows "\<exists>i j. i < length (rows frame) \<and> j < length (rows frame) \<and>
           (\<forall>k < length (rows frame). sint (Stock (rows frame ! k)) \<le> sint (Stock (rows frame ! i))) \<and>
           (\<forall>k < i. sint (Stock (rows frame ! k)) < sint (Stock (rows frame ! i))) \<and>
           (\<forall>k < length (rows frame). sint (Stock (rows frame ! j)) \<le> sint (Stock (rows frame ! k))) \<and>
           (\<forall>k < j. sint (Stock (rows frame ! j)) < sint (Stock (rows frame ! k))) \<and>
           print_statistics fl self =
             (None, [Rule, Heading, Rule, TotalStock (series_sum (column_Stock frame)),
                     Products (length (rows frame)),
                     AverageStock (format_1f (series_mean fl (column_Stock frame))),
                     Highest (Product (rows frame ! i)) (Stock (rows frame ! i)),
                     Lowest (Product (rows frame ! j)) (Stock (rows frame ! j))])"
proof -
  let ?s = "column_Stock frame"
  let ?n = "length (rows frame)"
  have s: "?s \<noteq> []" "length ?s = ?n"
    using nonempty by (simp_all add: column_Stock_def)
  have nth: "?s ! k = (k, Stock (rows frame ! k))" if "k < ?n" for k
  proof -
    from that have "label (rows frame ! k) = map label (rows frame) ! k"
      by simp
    also have "\<dots> = k"
      using that by (simp add: labels)
    finally show ?thesis
      using that by (simp add: column_Stock_def)
  qed
  from idxmax_first [OF s(1)] obtain i where
    i: "i < ?n" "idxmax ?s = Inr (fst (?s ! i))"
       "\<forall>k < ?n. stock_key (?s ! k) \<le> stock_key (?s ! i)"
       "\<forall>k < i. stock_key (?s ! k) < stock_key (?s ! i)"
    using s(2) by auto
  from idxmin_first [OF s(1)] obtain j where
    j: "j < ?n" "idxmin ?s = Inr (fst (?s ! j))"
       "\<forall>k < ?n. stock_key (?s ! j) \<le> stock_key (?s ! k)"
       "\<forall>k < j. stock_key (?s ! j) < stock_key (?s ! k)"
    using s(2) by auto
  have "idxmax ?s = Inr i" "idxmin ?s = Inr j"
    using i j by (simp_all add: nth)
  then have "print_statistics fl self =
             (None, [Rule, Heading, Rule, TotalStock (series_sum ?s), Products ?n,
                     AverageStock (format_1f (series_mean fl ?s)),
                     Highest (Product (rows frame ! i)) (Stock (rows frame ! i)),
                     Lowest (Product (rows frame ! j)) (Stock (rows frame ! j))])"
    using frame i(1) j(1) s(2)
    by (simp add: print_statistics_def iloc_def nth Let_def)
      (simp add: column_Product_def)
  moreover have "\<forall>k < ?n. sint (Stock (rows frame ! k)) \<le> sint (Stock (rows frame ! i))"
    using i by (simp add: nth stock_key_def)
  moreover have "\<forall>k < i. sint (Stock (rows frame ! k)) < sint (Stock (rows frame ! i))"
    using i by (simp add: nth stock_key_def)
  moreover have "\<forall>k < ?n. sint (Stock (rows frame ! j)) \<le> sint (Stock (rows frame ! k))"
    using j by (simp add: nth stock_key_def)
  moreover have "\<forall>k < j. sint (Stock (rows frame ! j)) < sint (Stock (rows frame ! k))"
    using j by (simp add: nth stock_key_def)
  ultimately show ?thesis
    using i(1) j(1) by blast
qed

text \<open>
  C1. On the file with the rows \<open>,1\<close>, \<open>A,99\<close>, \<open>B,10\<close> the load succeeds and drops the
  first row, so the data frame holds A and B under the labels 1 and 2. \<open>idxmax\<close> returns
  the label 1 and \<open>iloc[1]\<close> reads the second row: the report names B with 10 units as the
  highest, not A with 99. \<open>idxmin\<close> returns the label 2 and \<open>iloc[2]\<close> raises \<open>IndexError\<close>
  before the lowest record is printed.
\<close>

theorem print_statistics_after_dropped_row:
  "fst (load_data [CSV_FILE \<mapsto> dropped_row_table] (init_visualizer CSV_FILE)) = Inr True \<and>
   map_option (\<lambda>frame. map (\<lambda>r. (label r, Product r, Stock r)) (rows frame))
     (df (fst (snd (load_data [CSV_FILE \<mapsto> dropped_row_table] (init_visualizer CSV_FILE))))) =
     Some [(1, Some ''A'', 99), (2, Some ''B'', 10)] \<and>
   print_statistics (\<lambda>x. x)
     (fst (snd (load_data [CSV_FILE \<mapsto> dropped_row_table] (init_visualizer CSV_FILE)))) =
     (Some (Exc IndexError ''single positional indexer is out-of-bounds''),
      [Rule, Heading, Rule, TotalStock 109, Products 2, AverageStock 545, Highest (Some ''B'') 10])"
  by (simp add: load_data_def dropped_row_table_def init_visualizer_def csv_line_def
      REQUIRED_COLUMNS_def stock_error_def read_product_def NA_VALUES_def dropna_def
      empty_frame_def print_statistics_def column_Stock_def column_Product_def series_sum_def
      series_mean_def iloc_def format_1f_def)

text \<open>A value within half a tenth of \<open>t\<close> tenths is printed as \<open>t\<close> tenths.\<close>

lemma format_1f_nearest:
  assumes "of_int t - 1 / 2 < v * 10" and "v * 10 < of_int t + 1 / 2"
  shows "format_1f v = t"
proof -
  have "\<lfloor>v * 10\<rfloor> = t \<or> \<lfloor>v * 10\<rfloor> = t - 1"
    using assms by linarith
  then show ?thesis
  proof
    assume f: "\<lfloor>v * 10\<rfloor> = t"
    then have "v * 10 - of_int t < 1 / 2" using assms by linarith
    with f show ?thesis by (simp add: format_1f_def Let_def)
  next
    assume f: "\<lfloor>v * 10\<rfloor> = t - 1"
    then have "1 / 2 < v * 10 - of_int (t - 1)" using assms by simp
    with f show ?thesis by (simp add: format_1f_def Let_def)
  qed
qed

text \<open>
  Inside a binade \<open>2^k \<le> |v| < 2^(k+1)\<close> the float64 values are \<open>2^(k-52)\<close> apart. The
  mean 35/3 lies between 8 and 16 and is rounded to \<open>6567749456581973 / 2^49\<close>; the mean
  109/2 is a float64 itself.
\<close>

lemma round_float64_binade:
  assumes "2 powi k \<le> \<bar>v\<bar>" and "\<bar>v\<bar> < 2 powi (k + 1)" and "- 1022 \<le> k"
  shows "round_float64 v = of_int (round_half_even (v / 2 powi (k - 52))) * 2 powi (k - 52)"
proof -
  have "(0::real) < 2 powi k"
    by (rule zero_less_power_int) simp
  with assms(1) have pos: "0 < \<bar>v\<bar>"
    by linarith
  have "(2::real) powr real_of_int k = 2 powi k"
    and "(2::real) powr real_of_int (k + 1) = 2 powi (k + 1)"
    by (simp_all only: powr_real_of_int' [of 2] zero_le_numeral numeral_neq_zero
        simp_thms)
  with assms have "2 powr real_of_int k \<le> \<bar>v\<bar> \<and> \<bar>v\<bar> < 2 powr real_of_int (k + 1)"
    by simp
  with pos have "\<lfloor>log 2 \<bar>v\<bar>\<rfloor> = k"
    using floor_log_eq_powr_iff [of "\<bar>v\<bar>" 2 k] by simp
  with pos assms(3) show ?thesis
    by (simp add: round_float64_def Let_def max_def)
qed

lemma round_float64_35_3: "round_float64 (35 / 3) = 6567749456581973 / 2 ^ 49"
  using round_float64_binade [of 3 "35 / 3"]
  by (simp add: round_half_even_def)

lemma round_float64_109_2: "round_float64 (109 / 2) = 109 / 2"
  using round_float64_binade [of 5 "109 / 2"]
  by (simp add: round_half_even_def)

lemma format_1f_round_float64_35_3: "format_1f (round_float64 (35 / 3)) = 117"
  by (rule format_1f_nearest) (simp_all add: round_float64_35_3)

text \<open>
  A file with three complete rows whose stocks are 10, 20 and 5, none of the products an NA
  marker, loads without a dropped row, and the report is: total 35, 3 products, average
  11.7, highest the record with stock 20, lowest the record with stock 5.
\<close>

lemma statistics_three_complete_rows:
  assumes stored: "fs (csv_path self) =
      Some (Table header [csv_line p1 (StockInt 10), csv_line p2 (StockInt 20),
                          csv_line p3 (StockInt 5)])"
    and header: "REQUIRED_COLUMNS \<subseteq> set header"
    and products: "p1 \<notin> NA_VALUES" "p2 \<notin> NA_VALUES" "p3 \<notin> NA_VALUES"
  shows "fst (load_data fs self) = Inr True \<and>
         print_statistics round_float64 (fst (snd (load_data fs self))) =
           (None, [Rule, Heading, Rule, TotalStock 35, Products 3, AverageStock 117,
                   Highest (Some p2) 20, Lowest (Some p3) 5])"
proof -
  let ?frame = "\<lparr>columns = filter (\<lambda>c. c \<in> REQUIRED_COLUMNS) header,
                 rows = [\<lparr>label = 0, Product = Some p1, Stock = 10\<rparr>,
                         \<lparr>label = 1, Product = Some p2, Stock = 20\<rparr>,
                         \<lparr>label = 2, Product = Some p3, Stock = 5\<rparr>]\<rparr>"
  have load: "load_data fs self = (Inr True, self\<lparr>df := Some ?frame\<rparr>, [ReadCsv (csv_path self)])"
    using stored header required_columns_kept [OF header] products
    by (simp add: load_data_def csv_line_def stock_error_def read_product_def dropna_def
        empty_frame_def)
  have "print_statistics round_float64 (self\<lparr>df := Some ?frame\<rparr>) =
          (None, [Rule, Heading, Rule, TotalStock 35, Products 3, AverageStock 117,
                  Highest (Some p2) 20, Lowest (Some p3) 5])"
    by (simp add: print_statistics_def column_Stock_def column_Product_def series_sum_def
        series_mean_def iloc_def format_1f_round_float64_35_3)
  with load show ?thesis by simp
qed

text \<open>
  C6. On the file with the rows \<open>,7\<close>, \<open>A,10\<close>, \<open>B,20\<close>, \<open>C,5\<close> the load succeeds and
  drops the first row: the dataset has the stocks 10, 20 and 5 under the labels 1, 2 and 3.
  The report gives total 35, 3 products and average 11.7, but \<open>idxmax\<close> returns the label
  2 and \<open>iloc[2]\<close> reads the third row, so the highest record printed is C with 5 units,
  not B with 20; \<open>idxmin\<close> returns the label 3 and \<open>iloc[3]\<close> raises \<open>IndexError\<close>, so no
  lowest record is printed.
\<close>

theorem statistics_example_after_dropped_row:
  "fst (load_data [CSV_FILE \<mapsto> dropped_row_stocks_table] (init_visualizer CSV_FILE)) = Inr True \<and>
   map_option (\<lambda>frame. map (\<lambda>r. (label r, Product r, Stock r)) (rows frame))
     (df (fst (snd (load_data [CSV_FILE \<mapsto> dropped_row_stocks_table]
                      (init_visualizer CSV_FILE))))) =
     Some [(1, Some ''A'', 10), (2, Some ''B'', 20), (3, Some ''C'', 5)] \<and>
   print_statistics round_float64
     (fst (snd (load_data [CSV_FILE \<mapsto> dropped_row_stocks_table] (init_visualizer CSV_FILE)))) =
     (Some (Exc IndexError ''single positional indexer is out-of-bounds''),
      [Rule, Heading, Rule, TotalStock 35, Products 3, AverageStock 117, Highest (Some ''C'') 5])"
  by (simp add: load_data_def dropped_row_stocks_table_def init_visualizer_def csv_line_def
      REQUIRED_COLUMNS_def stock_error_def read_product_def NA_VALUES_def dropna_def
      empty_frame_def print_statistics_def column_Stock_def column_Product_def series_sum_def
      series_mean_def iloc_def format_1f_round_float64_35_3)

section \<open>Rendering and saving\<close>







text \<open>
  C8. When the write succeeds \<open>save_chart\<close> prints the file name it was given and returns
  \<open>True\<close>. When the write raises an \<open>Exception\<close> of any class, an I/O error among them, it
  prints the message of that exception and returns \<open>False\<close>; in both cases nothing is
  raised to the caller.
\<close>

theorem save_chart_reports_and_returns:
  "(savefig filename = None \<longrightarrow>
      save_chart savefig fig filename =
        (Inr True, [Savefig filename DPI, Print (ChartSaved filename)])) \<and>
   (savefig filename = Some (Exc c msg) \<longrightarrow>
      save_chart savefig fig filename =
        (Inr False, [Savefig filename DPI, Print (SaveError msg)])) \<and>
   ((\<forall>e. savefig filename = Some e \<longrightarrow> is_Exception e) \<longrightarrow>
      (\<exists>saved. fst (save_chart savefig fig filename) = Inr saved))"
  by (auto simp add: save_chart_def split: option.splits)

theorem save_chart_reports_and_returns_witness:
  "save_chart (\<lambda>f. if f = ''/proc/chart.png'' then Some (Exc OSError ''Permission denied'') else None)
     (chart_of (example_frame 3)) ''stock_chart.png'' =
     (Inr True, [Savefig ''stock_chart.png'' 300, Print (ChartSaved ''stock_chart.png'')]) \<and>
   save_chart (\<lambda>f. if f = ''/proc/chart.png'' then Some (Exc OSError ''Permission denied'') else None)
     (chart_of (example_frame 3)) ''/proc/chart.png'' =
     (Inr False, [Savefig ''/proc/chart.png'' 300, Print (SaveError ''Permission denied'')]) \<and>
   (\<exists>saved. fst (save_chart (\<lambda>f. Some (Exc EOFError ''disk'')) (chart_of (example_frame 3))
                    ''stock_chart.png'') = Inr saved)"
proof (intro conjI)
  let ?disk = "\<lambda>f. if f = ''/proc/chart.png'' then Some (Exc OSError ''Permission denied'')
                    else None"
  show "save_chart ?disk (chart_of (example_frame 3)) ''stock_chart.png'' =
          (Inr True, [Savefig ''stock_chart.png'' 300, Print (ChartSaved ''stock_chart.png'')])"
    using save_chart_reports_and_returns
      [where savefig = ?disk and filename = "''stock_chart.png''"
         and fig = "chart_of (example_frame 3)"]
    by (simp add: DPI_def)
  show "save_chart ?disk (chart_of (example_frame 3)) ''/proc/chart.png'' =
          (Inr False, [Savefig ''/proc/chart.png'' 300, Print (SaveError ''Permission denied'')])"
    using save_chart_reports_and_returns
      [where savefig = ?disk and filename = "''/proc/chart.png''"
         and fig = "chart_of (example_frame 3)" and c = OSError and msg = "''Permission denied''"]
    by (simp add: DPI_def)
  have "\<forall>e. (\<lambda>f. Some (Exc EOFError ''disk'')) ''stock_chart.png'' = Some e \<longrightarrow> is_Exception e"
    by auto
  with save_chart_reports_and_returns
      [where savefig = "\<lambda>f. Some (Exc EOFError ''disk'')" and filename = "''stock_chart.png''"
         and fig = "chart_of (example_frame 3)"]
  show "\<exists>saved. fst (save_chart (\<lambda>f. Some (Exc EOFError ''disk'')) (chart_of (example_frame 3))
                    ''stock_chart.png'') = Inr saved"
    by blast
qed

section \<open>The entry point\<close>

lemma main_status:
  "fst (main w) =
     (case fst (main_try w) of
        Inr status \<Rightarrow> Inr status
      | Inl KeyboardInterrupt \<Rightarrow> Inr 1
      | Inl (Exc c msg) \<Rightarrow> Inr 1
      | Inl SystemExit \<Rightarrow> Inl SystemExit)"
  by (simp add: main_def split: prod.splits sum.splits exc.splits)

lemma main_after_load_status:
  "fst (main_after_load w v ev) = Inr status \<Longrightarrow> status = 0 \<or> status = 1"
  by (auto simp add: main_after_load_def
      split: prod.splits sum.splits option.splits if_splits)

lemma main_try_status:
  "fst (main_try w) = Inr status \<Longrightarrow> status = 0 \<or> status = 1"
  by (auto simp add: main_try_def dest: main_after_load_status
      split: prod.splits sum.splits bool.splits)

lemma main_after_load_zero:
  "fst (main_after_load w v ev) = Inr 0 \<longleftrightarrow>
     (\<exists>fig ls answer.
        create_visualization (renderer w) v = Inr (Some fig) \<and>
        print_statistics (float64 w) v = (None, ls) \<and>
        show_plot w = None \<and>
        user_input w = Inr answer \<and>
        (lower answer = ''y'' \<longrightarrow>
           (\<exists>saved. fst (save_chart (writer w) fig ''stock_chart.png'') = Inr saved)))"
  by (auto simp add: main_after_load_def
      split: prod.splits sum.splits option.splits if_splits)

lemma main_try_zero:
  "fst (main_try w) = Inr 0 \<longleftrightarrow>
     (\<exists>v ev fig ls answer.
        load_data (files w) (init_visualizer CSV_FILE) = (Inr True, v, ev) \<and>
        create_visualization (renderer w) v = Inr (Some fig) \<and>
        print_statistics (float64 w) v = (None, ls) \<and>
        show_plot w = None \<and>
        user_input w = Inr answer \<and>
        (lower answer = ''y'' \<longrightarrow>
           (\<exists>saved. fst (save_chart (writer w) fig ''stock_chart.png'') = Inr saved)))"
  by (auto simp add: main_try_def main_after_load_zero
      split: prod.splits sum.splits bool.splits)

text \<open>
  C9. \<open>main\<close> returns 0 exactly when \<open>load_data\<close> returns \<open>True\<close>, the figure is created,
  the statistics are printed, the plot is shown and the prompt is answered without an
  exception, and the save, when the answer asks for one, raises nothing to \<open>main\<close>. It
  returns 1 when \<open>load_data\<close> returns \<open>False\<close>, when the figure is \<open>None\<close>, when
  \<open>KeyboardInterrupt\<close> is raised in the \<open>try\<close> block and when any \<open>Exception\<close> is raised
  there. Its result is 0, 1, or a \<open>SystemExit\<close> that no handler catches.
\<close>

theorem main_exit_status:
  "(fst (main w) = Inr 0 \<longleftrightarrow>
      (\<exists>v ev fig ls answer.
         load_data (files w) (init_visualizer CSV_FILE) = (Inr True, v, ev) \<and>
         create_visualization (renderer w) v = Inr (Some fig) \<and>
         print_statistics (float64 w) v = (None, ls) \<and>
         show_plot w = None \<and>
         user_input w = Inr answer \<and>
         (lower answer = ''y'' \<longrightarrow>
            (\<exists>saved. fst (save_chart (writer w) fig ''stock_chart.png'') = Inr saved)))) \<and>
   (fst (load_data (files w) (init_visualizer CSV_FILE)) = Inr False \<longrightarrow> fst (main w) = Inr 1) \<and>
   (create_visualization (renderer w) v' = Inr None \<longrightarrow>
      fst (main_after_load w v' ev') = Inr 1) \<and>
   (fst (main_try w) = Inl KeyboardInterrupt \<longrightarrow> fst (main w) = Inr 1) \<and>
   (fst (main_try w) = Inl (Exc c msg) \<longrightarrow> fst (main w) = Inr 1) \<and>
   (fst (main w) = Inr 0 \<or> fst (main w) = Inr 1 \<or> fst (main w) = Inl SystemExit)"
proof (intro conjI)
  show "fst (main w) = Inr 0 \<longleftrightarrow>
      (\<exists>v ev fig ls answer.
         load_data (files w) (init_visualizer CSV_FILE) = (Inr True, v, ev) \<and>
         create_visualization (renderer w) v = Inr (Some fig) \<and>
         print_statistics (float64 w) v = (None, ls) \<and>
         show_plot w = None \<and>
         user_input w = Inr answer \<and>
         (lower answer = ''y'' \<longrightarrow>
            (\<exists>saved. fst (save_chart (writer w) fig ''stock_chart.png'') = Inr saved)))"
    unfolding main_try_zero [symmetric]
    by (simp add: main_status split: sum.splits exc.splits)
  show "fst (load_data (files w) (init_visualizer CSV_FILE)) = Inr False \<longrightarrow> fst (main w) = Inr 1"
    by (auto simp add: main_status main_try_def split: prod.splits)
  show "create_visualization (renderer w) v' = Inr None \<longrightarrow>
      fst (main_after_load w v' ev') = Inr 1"
    by (simp add: main_after_load_def)
  show "fst (main_try w) = Inl KeyboardInterrupt \<longrightarrow> fst (main w) = Inr 1"
    by (simp add: main_status)
  show "fst (main_try w) = Inl (Exc c msg) \<longrightarrow> fst (main w) = Inr 1"
    by (simp add: main_status)
  show "fst (main w) = Inr 0 \<or> fst (main w) = Inr 1 \<or> fst (main w) = Inl SystemExit"
    using main_try_status [of w]
    by (auto simp add: main_status split: sum.splits exc.splits)
qed

lemmas run_simps =
  main_try_def main_after_load_def load_data_def create_visualization_def print_statistics_def
  example_world_def example_table_def dropped_row_table_def csv_line_def init_visualizer_def
  CSV_FILE_def REQUIRED_COLUMNS_def stock_error_def read_product_def NA_VALUES_def dropna_def
  empty_frame_def ax_pie_def pie_lists column_Stock_def column_Product_def series_sum_def
  series_mean_def iloc_def format_1f_def round_float64_35_3 round_float64_109_2 lower_def
  lower_char_def

theorem main_exit_status_witness:
  "fst (main (example_world example_table ''n'')) = Inr 0 \<and>
   fst (main ((example_world example_table ''n'')\<lparr>files := Map.empty\<rparr>)) = Inr 1 \<and>
   fst (main ((example_world example_table ''n'')\<lparr>user_input := Inl KeyboardInterrupt\<rparr>)) = Inr 1 \<and>
   fst (main (example_world dropped_row_table ''n'')) = Inr 1 \<and>
   fst (main_after_load (example_world example_table ''n'') (init_visualizer CSV_FILE) []) = Inr 1 \<and>
   fst (main ((example_world example_table ''Y'')
          \<lparr>writer := \<lambda>filename. Some (Exc OSError ''Permission denied'')\<rparr>)) = Inr 0"
proof (intro conjI)
  let ?w = "example_world example_table ''n''"
  have "fst (main_try ?w) = Inr 0"
    by (simp add: run_simps)
  then have "\<exists>v ev fig ls answer.
         load_data (files ?w) (init_visualizer CSV_FILE) = (Inr True, v, ev) \<and>
         create_visualization (renderer ?w) v = Inr (Some fig) \<and>
         print_statistics (float64 ?w) v = (None, ls) \<and>
         show_plot ?w = None \<and>
         user_input ?w = Inr answer \<and>
         (lower answer = ''y'' \<longrightarrow>
            (\<exists>saved. fst (save_chart (writer ?w) fig ''stock_chart.png'') = Inr saved))"
    by (simp only: main_try_zero)
  with main_exit_status [of ?w] show "fst (main ?w) = Inr 0"
    by blast
next
  let ?w = "(example_world example_table ''n'')\<lparr>files := Map.empty\<rparr>"
  have "fst (load_data (files ?w) (init_visualizer CSV_FILE)) = Inr False"
    by (simp add: run_simps)
  with main_exit_status [of ?w] show "fst (main ?w) = Inr 1"
    by blast
next
  let ?w = "(example_world example_table ''n'')\<lparr>user_input := Inl KeyboardInterrupt\<rparr>"
  have "fst (main_try ?w) = Inl KeyboardInterrupt"
    by (simp add: run_simps)
  with main_exit_status [of ?w] show "fst (main ?w) = Inr 1"
    by blast
next
  let ?w = "example_world dropped_row_table ''n''"
  have "fst (main_try ?w) = Inl (Exc IndexError ''single positional indexer is out-of-bounds'')"
    by (simp add: run_simps)
  with main_exit_status [of ?w _ _ IndexError "''single positional indexer is out-of-bounds''"]
  show "fst (main ?w) = Inr 1"
    by blast
next
  let ?w = "example_world example_table ''n''"
  have "create_visualization (renderer ?w) (init_visualizer CSV_FILE) = Inr None"
    by (simp add: create_visualization_def init_visualizer_def)
  with main_exit_status [of ?w "init_visualizer CSV_FILE" "[]"]
  show "fst (main_after_load ?w (init_visualizer CSV_FILE) []) = Inr 1"
    by blast
next
  let ?w = "(example_world example_table ''Y'')
              \<lparr>writer := \<lambda>filename. Some (Exc OSError ''Permission denied'')\<rparr>"
  have "fst (main_try ?w) = Inr 0"
    by (simp add: run_simps save_chart_def)
  then have "\<exists>v ev fig ls answer.
         load_data (files ?w) (init_visualizer CSV_FILE) = (Inr True, v, ev) \<and>
         create_visualization (renderer ?w) v = Inr (Some fig) \<and>
         print_statistics (float64 ?w) v = (None, ls) \<and>
         show_plot ?w = None \<and>
         user_input ?w = Inr answer \<and>
         (lower answer = ''y'' \<longrightarrow>
            (\<exists>saved. fst (save_chart (writer ?w) fig ''stock_chart.png'') = Inr saved))"
    by (simp only: main_try_zero)
  with main_exit_status [of ?w] show "fst (main ?w) = Inr 0"
    by blast
qed

end
